theory Spec2Isabelle
  imports Complex_Main "HOL-Library.Finite_Map" "HOL-Library.Sublist"
begin

section \<open>Occurrence features of an event history\<close>

text \<open>
  A shallow embedding of \<^verbatim>\<open>core/ml/occurrence_features.py\<close>: the class
  \<^verbatim>\<open>OccurrenceFeatureExtractor\<close>, its cache and its three helper algorithms
  (weekday statistics, gaps between events, periodicity score).

  Conventions of the model.
  \<^item> A pandas \<^verbatim>\<open>Timestamp\<close> is the integer number of nanoseconds since
    1970-01-01 00:00 (time-zone naive), so a value carries a time of day, as the
    source's \<^verbatim>\<open>datetime\<close> does. A \<^verbatim>\<open>Timedelta\<close> is an integer number of
    nanoseconds.
  \<^item> A history is a table of which the date column alone is read. Either the column
    has the type \<^verbatim>\<open>datetime64\<close> and is the list of its values in row order, none
    of them \<^verbatim>\<open>NaT\<close>; or the table is empty and its date column has no datetime
    type, as \<^verbatim>\<open>pd.DataFrame(columns=[...])\<close> builds it. A column that holds
    timestamps is datetime-typed: the \<^verbatim>\<open>.dt\<close> accessor of the weekday statistics
    needs it.
  \<^item> An exception is a value: a method returns an error or a result, together with the
    state of the extractor it leaves.
  \<^item> Python and numpy floats are real numbers: rounding is not modelled.
  \<^item> The logger is a list of messages, so that a cache hit can be told from a
    computation.
\<close>

subsection \<open>Timestamps\<close>

type_synonym timestamp = int
type_synonym date_column = "timestamp list"

datatype history = DatetimeColumn date_column | ObjectColumn

datatype error = AttributeError

text \<open>The values of the date column; \<^verbatim>\<open>len(history)\<close> is the length of this list.\<close>

fun rows :: "history \<Rightarrow> date_column" where
  "rows (DatetimeColumn ds) = ds"
| "rows ObjectColumn = []"

text \<open>\<^verbatim>\<open>history.sort_values(DFCols.DATE)\<close>; the type of the column stays.\<close>

fun sort_values :: "history \<Rightarrow> history" where
  "sort_values (DatetimeColumn ds) = DatetimeColumn (sort ds)"
| "sort_values ObjectColumn = ObjectColumn"

definition ns_per_day :: int where
  "ns_per_day = 86400000000000"

text \<open>\<^verbatim>\<open>Timedelta.days\<close>: the whole days of a difference, rounded towards minus infinity.\<close>

definition td_days :: "int \<Rightarrow> int" where
  "td_days delta = delta div ns_per_day"

text \<open>\<^verbatim>\<open>Timestamp.weekday()\<close>, 0 = Monday. Day 0 of the epoch is a Thursday.\<close>

definition weekday :: "timestamp \<Rightarrow> nat" where
  "weekday t = nat ((t div ns_per_day + 3) mod 7)"

text \<open>The timestamp of midnight of the calendar day numbered \<open>d\<close>.\<close>

definition midnight :: "int \<Rightarrow> timestamp" where
  "midnight d = d * ns_per_day"

text \<open>The calendar day a timestamp lies on.\<close>

definition day_of :: "timestamp \<Rightarrow> int" where
  "day_of t = t div ns_per_day"

subsection \<open>Statistics records\<close>

record weekday_info =
  occurrence_count :: nat
  occurrence_rate :: real
  total_opportunities :: nat

text \<open>
  \<open>history_span_days\<close> is \<open>None\<close> where the source has the float \<^verbatim>\<open>nan\<close>: the
  maximum of an empty datetime column is \<^verbatim>\<open>NaT\<close>, and \<^verbatim>\<open>(NaT - NaT).days\<close> is
  \<^verbatim>\<open>nan\<close>, not a number of days.
\<close>

record entity_stats =
  weekday_stats :: "nat \<rightharpoonup> weekday_info"
  stddev_gap_between_events :: real
  periodicity_score :: real
  total_events :: nat
  history_span_days :: "int option"

record features =
  weekday_occurrence_rate :: real
  weekday_occurrence_count :: nat
  feat_stddev_gap_between_events :: real
  feat_periodicity_score :: real
  week_of_month :: real

datatype reason =
    InsufficientSample int int
  | RateTooLow real real
  | PredictionAuthorized real int

datatype log_msg =
    CacheHit string
  | ComputeStats string nat
  | CacheClearedFor string
  | CacheClearedAll

record extractor =
  cache :: "(string, entity_stats) fmap"
  debug_log :: "log_msg list"

record cache_stats =
  cache_size :: nat
  cached_entities :: nat

text \<open>\<^verbatim>\<open>__init__\<close> and \<^verbatim>\<open>create_occurrence_extractor\<close>: an empty cache.\<close>

definition create_occurrence_extractor :: extractor where
  "create_occurrence_extractor = \<lparr>cache = fmempty, debug_log = []\<rparr>"

subsection \<open>Weekday statistics\<close>

text \<open>
  \<^verbatim>\<open>_count_weekdays_in_range\<close>: the loop \<^verbatim>\<open>while current <= end_date\<close>, with the
  counter as an accumulator; \<^verbatim>\<open>timedelta(days=1)\<close> is \<open>ns_per_day\<close>.
\<close>

function count_weekdays_loop :: "timestamp \<Rightarrow> timestamp \<Rightarrow> nat \<Rightarrow> nat \<Rightarrow> nat" where
  "count_weekdays_loop current end_date target_weekday count =
     (if current \<le> end_date
      then count_weekdays_loop (current + ns_per_day) end_date target_weekday
             (if weekday current = target_weekday then count + 1 else count)
      else count)"
  by pat_completeness auto
termination
  by (relation "measure (\<lambda>(current, end_date, _, _). nat (end_date - current + 1))")
     (auto simp: ns_per_day_def)

declare count_weekdays_loop.simps [simp del]

definition count_weekdays_in_range :: "timestamp \<Rightarrow> timestamp \<Rightarrow> nat \<Rightarrow> nat" where
  "count_weekdays_in_range start_date end_date target_weekday =
     count_weekdays_loop start_date end_date target_weekday 0"

text \<open>
  \<^verbatim>\<open>history[DATE].dt.dayofweek.value_counts().to_dict().get(weekday, 0)\<close>: the number of
  rows whose date falls on the weekday.
\<close>

definition weekday_counts :: "date_column \<Rightarrow> nat \<Rightarrow> nat" where
  "weekday_counts h wd = length (filter (\<lambda>t. weekday t = wd) h)"

text \<open>The body of the loop \<^verbatim>\<open>for weekday in range(7)\<close>.\<close>

definition weekday_entry :: "date_column \<Rightarrow> timestamp \<Rightarrow> timestamp \<Rightarrow> nat \<Rightarrow> weekday_info" where
  "weekday_entry h min_date max_date wd =
     (let cnt = weekday_counts h wd;
          opps = count_weekdays_in_range min_date max_date wd;
          rate = (if opps > 0 then real cnt / real opps else 0)
      in \<lparr>occurrence_count = cnt, occurrence_rate = rate, total_opportunities = opps\<rparr>)"

text \<open>
  \<^verbatim>\<open>_compute_weekday_stats\<close>, on the values of the date column. The empty history
  (\<^verbatim>\<open>history.empty\<close>, whatever the type of the column) returns the empty dictionary
  before any minimum is taken; otherwise the minimum and maximum of the column exist.
\<close>

definition compute_weekday_stats :: "date_column \<Rightarrow> (nat \<rightharpoonup> weekday_info)" where
  "compute_weekday_stats h =
     (case h of
        [] \<Rightarrow> Map.empty
      | x # xs \<Rightarrow>
          (let min_date = fold min xs x;
               max_date = fold max xs x
           in foldl (\<lambda>stats wd. stats(wd \<mapsto> weekday_entry h min_date max_date wd))
                Map.empty [0..<7]))"

subsection \<open>Gaps and periodicity\<close>

text \<open>
  \<^verbatim>\<open>_compute_gaps_between_events\<close>, on the values of the date column: the early
  return for fewer than 2 records, then the loop over \<^verbatim>\<open>range(1, len(dates))\<close>,
  which appends the gap in days when it is positive.
\<close>

definition compute_gaps_between_events :: "date_column \<Rightarrow> int list" where
  "compute_gaps_between_events h =
     (if length h < 2 then []
      else foldl (\<lambda>gaps i.
             (let gap = td_days (h ! i - h ! (i - 1))
              in if gap > 0 then gaps @ [gap] else gaps))
           [] [1..<length h])"

text \<open>
  \<^verbatim>\<open>np.mean\<close> and \<^verbatim>\<open>np.std\<close> (population standard deviation:
  \<^verbatim>\<open>sqrt(mean(abs(x - x.mean())**2))\<close>). The source calls them on non-empty lists
  only.
\<close>

definition np_mean :: "real list \<Rightarrow> real" where
  "np_mean xs = sum_list xs / real (length xs)"

definition np_std :: "real list \<Rightarrow> real" where
  "np_std xs = sqrt (np_mean (map (\<lambda>x. \<bar>x - np_mean xs\<bar> ^ 2) xs))"

definition compute_periodicity_score :: "int list \<Rightarrow> real" where
  "compute_periodicity_score gaps =
     (if length gaps < 3 then 0
      else (let mean_gap = np_mean (map real_of_int gaps);
                std_gap = np_std (map real_of_int gaps)
            in if mean_gap = 0 then 0
               else (let cv = std_gap / mean_gap in 1 / (1 + cv))))"

subsection \<open>The cache\<close>

text \<open>\<^verbatim>\<open>str\<close> of a non-negative integer: its decimal digits.\<close>

definition digit_char :: "nat \<Rightarrow> char" where
  "digit_char d = ''0123456789'' ! d"

fun str_nat :: "nat \<Rightarrow> string" where
  "str_nat n = (if n < 10 then [digit_char n] else str_nat (n div 10) @ [digit_char (n mod 10)])"

declare str_nat.simps [simp del]

text \<open>The cache key \<^verbatim>\<open>f"{entity_id}_{len(history)}"\<close>.\<close>

definition cache_key :: "string \<Rightarrow> nat \<Rightarrow> string" where
  "cache_key entity_id n = entity_id @ ''_'' @ str_nat n"

text \<open>
  \<open>history_span_days\<close>, the last entry of the dictionary built on a cache miss:
  \<^verbatim>\<open>(history_sorted[DATE].max() - history_sorted[DATE].min()).days\<close>, with no guard for
  the empty history. On an empty datetime column maximum and minimum are \<^verbatim>\<open>NaT\<close> and
  the result is \<^verbatim>\<open>nan\<close>. On an empty column without datetime type they are the float
  \<^verbatim>\<open>nan\<close>, which has no attribute \<^verbatim>\<open>days\<close>: the expression raises
  \<^verbatim>\<open>AttributeError\<close>.
\<close>

definition span_days :: "history \<Rightarrow> error + int option" where
  "span_days h =
     (case h of
        ObjectColumn \<Rightarrow> Inl AttributeError
      | DatetimeColumn [] \<Rightarrow> Inr None
      | DatetimeColumn (x # xs) \<Rightarrow> Inr (Some (td_days (fold max xs x - fold min xs x))))"

text \<open>
  The statistics computed on a cache miss, from sorting the history to building the
  dictionary. The entries are evaluated in the order of the source; only the last one
  can raise.
\<close>

definition fresh_stats :: "history \<Rightarrow> error + entity_stats" where
  "fresh_stats h =
     (let history_sorted = sort_values h;
          wstats = compute_weekday_stats (rows history_sorted);
          gaps = compute_gaps_between_events (rows history_sorted);
          stddev_gap = (if length gaps > 1 then np_std (map real_of_int gaps) else 0);
          score = compute_periodicity_score gaps
      in case span_days history_sorted of
           Inl err \<Rightarrow> Inl err
         | Inr days \<Rightarrow>
             Inr \<lparr>weekday_stats = wstats,
                  stddev_gap_between_events = stddev_gap,
                  periodicity_score = score,
                  total_events = length (rows h),
                  history_span_days = days\<rparr>)"

text \<open>
  \<^verbatim>\<open>compute_entity_stats\<close>: a hit returns the cached statistics; a miss logs the
  computation, computes the statistics, stores them under the key and returns them. An
  exception of the computation leaves the cache as it was, after the log message.
\<close>

definition compute_entity_stats ::
  "extractor \<Rightarrow> string \<Rightarrow> history \<Rightarrow> (error + entity_stats) \<times> extractor" where
  "compute_entity_stats self entity_id h =
     (let key = cache_key entity_id (length (rows h))
      in case fmlookup (cache self) key of
           Some cached \<Rightarrow>
             (Inr cached, self\<lparr>debug_log := debug_log self @ [CacheHit entity_id]\<rparr>)
         | None \<Rightarrow>
             (let logged = self\<lparr>debug_log :=
                             debug_log self @ [ComputeStats entity_id (length (rows h))]\<rparr>
              in case fresh_stats h of
                   Inl err \<Rightarrow> (Inl err, logged)
                 | Inr stats \<Rightarrow> (Inr stats, logged\<lparr>cache := fmupd key stats (cache self)\<rparr>)))"

text \<open>
  \<^verbatim>\<open>clear_cache\<close>. \<^verbatim>\<open>if entity_id:\<close> is false for \<^verbatim>\<open>None\<close> and for the empty
  string; otherwise every key that starts with the identifier is deleted.
\<close>

definition clear_cache :: "extractor \<Rightarrow> string option \<Rightarrow> extractor" where
  "clear_cache self entity_id =
     (case entity_id of
        Some e \<Rightarrow>
          (if e \<noteq> []
           then self\<lparr>cache := fmfilter (\<lambda>k. \<not> prefix e k) (cache self),
                     debug_log := debug_log self @ [CacheClearedFor e]\<rparr>
           else self\<lparr>cache := fmempty, debug_log := debug_log self @ [CacheClearedAll]\<rparr>)
      | None \<Rightarrow> self\<lparr>cache := fmempty, debug_log := debug_log self @ [CacheClearedAll]\<rparr>)"

text \<open>\<^verbatim>\<open>str.split(sep)\<close> for a one-character separator.\<close>

fun split_on :: "char \<Rightarrow> string \<Rightarrow> string list" where
  "split_on sep [] = [] # []"
| "split_on sep (c # cs) =
     (if c = sep then [] # split_on sep cs
      else (case split_on sep cs of
              [] \<Rightarrow> [c] # []
            | p # ps \<Rightarrow> (c # p) # ps))"

text \<open>\<^verbatim>\<open>k.split('_')[0]\<close>; the list that \<open>split_on\<close> returns is never empty.\<close>

definition first_segment :: "string \<Rightarrow> string" where
  "first_segment k = (case split_on CHR ''_'' k of [] \<Rightarrow> [] | p # ps \<Rightarrow> p)"

definition get_cache_stats :: "extractor \<Rightarrow> cache_stats" where
  "get_cache_stats self =
     \<lparr>cache_size = fcard (fmdom (cache self)),
      cached_entities = fcard (first_segment |`| fmdom (cache self))\<rparr>"

subsection \<open>Features and the decision\<close>

text \<open>
  \<^verbatim>\<open>extract_features\<close>. \<^verbatim>\<open>get_week_of_month\<close> lives in another module and is a
  parameter here. An exception of \<^verbatim>\<open>compute_entity_stats\<close> passes through.
\<close>

definition default_weekday_info :: weekday_info where
  "default_weekday_info = \<lparr>occurrence_count = 0, occurrence_rate = 0, total_opportunities = 0\<rparr>"

definition extract_features ::
  "(timestamp \<Rightarrow> int) \<Rightarrow> extractor \<Rightarrow> string \<Rightarrow> timestamp \<Rightarrow> history
     \<Rightarrow> (error + features) \<times> extractor" where
  "extract_features get_week_of_month self entity_id target_date h =
     (case compute_entity_stats self entity_id h of
        (Inl err, self') \<Rightarrow> (Inl err, self')
      | (Inr stats, self') \<Rightarrow>
          (let wd = weekday target_date;
               wom = get_week_of_month target_date;
               info = (case weekday_stats stats wd of
                         Some i \<Rightarrow> i
                       | None \<Rightarrow> default_weekday_info)
           in (Inr \<lparr>weekday_occurrence_rate = occurrence_rate info,
                    weekday_occurrence_count = occurrence_count info,
                    feat_stddev_gap_between_events = stddev_gap_between_events stats,
                    feat_periodicity_score = periodicity_score stats,
                    week_of_month = real_of_int wom\<rparr>, self')))"

text \<open>
  \<^verbatim>\<open>should_predict_event\<close>: the three rules, in the order of the source. An
  exception of \<^verbatim>\<open>extract_features\<close> passes through.
\<close>

definition should_predict_event ::
  "(timestamp \<Rightarrow> int) \<Rightarrow> extractor \<Rightarrow> string \<Rightarrow> timestamp \<Rightarrow> history \<Rightarrow> int \<Rightarrow> real
     \<Rightarrow> (error + bool \<times> real \<times> reason) \<times> extractor" where
  "should_predict_event get_week_of_month self entity_id target_date h
       min_occurrence_count min_occurrence_rate =
     (case extract_features get_week_of_month self entity_id target_date h of
        (Inl err, self') \<Rightarrow> (Inl err, self')
      | (Inr feats, self') \<Rightarrow>
          (let cnt = int (weekday_occurrence_count feats);
               rate = weekday_occurrence_rate feats
           in if cnt < min_occurrence_count
              then (Inr (False, 0, InsufficientSample cnt min_occurrence_count), self')
              else if rate < min_occurrence_rate
              then (Inr (False, rate, RateTooLow rate min_occurrence_rate), self')
              else (Inr (True, rate, PredictionAuthorized rate cnt), self')))"

subsection \<open>Notions used to state the properties\<close>

text \<open>The time of day of a timestamp, in nanoseconds after midnight.\<close>

definition time_of_day :: "timestamp \<Rightarrow> int" where
  "time_of_day t = t mod ns_per_day"

text \<open>
  The number of calendar dates from the date of \<open>min_date\<close> to the date of
  \<open>max_date\<close>, both included, that fall on a weekday. This follows the words of the
  specification, not the loop.
\<close>

definition calendar_dates_in_span :: "timestamp \<Rightarrow> timestamp \<Rightarrow> nat \<Rightarrow> nat" where
  "calendar_dates_in_span min_date max_date wd =
     length (filter (\<lambda>d. weekday (midnight d) = wd) [day_of min_date..day_of max_date])"

text \<open>Mean and population standard deviation, as the specification words them.\<close>

definition mean_of :: "int list \<Rightarrow> real" where
  "mean_of gaps = (\<Sum>g\<leftarrow>gaps. real_of_int g) / real (length gaps)"

definition population_std :: "int list \<Rightarrow> real" where
  "population_std gaps =
     sqrt ((\<Sum>g\<leftarrow>gaps. (real_of_int g - mean_of gaps) ^ 2) / real (length gaps))"

text \<open>Reading a decimal numeral back, to show that the cache key determines the size.\<close>

definition digit_val :: "char \<Rightarrow> nat" where
  "digit_val c = of_char c - 48"

definition nat_of_str :: "string \<Rightarrow> nat" where
  "nat_of_str s = foldl (\<lambda>a c. 10 * a + digit_val c) 0 s"

text \<open>
  The entity identifier a cache key was built from: the text before the last
  separator, since the size suffix holds digits only.
\<close>

definition entity_of_key :: "string \<Rightarrow> string" where
  "entity_of_key k = rev (tl (dropWhile (\<lambda>c. c \<noteq> CHR ''_'') (rev k)))"

text \<open>
  The states an extractor can be in: a new one, and what the two methods that write the
  cache make of a reachable state. \<^verbatim>\<open>extract_features\<close> and
  \<^verbatim>\<open>should_predict_event\<close> change the state through \<^verbatim>\<open>compute_entity_stats\<close>
  only.
\<close>

inductive reachable :: "extractor \<Rightarrow> bool" where
  reachable_new: "reachable create_occurrence_extractor"
| reachable_compute: "reachable self \<Longrightarrow> reachable (snd (compute_entity_stats self entity_id h))"
| reachable_clear: "reachable self \<Longrightarrow> reachable (clear_cache self entity_id)"

text \<open>Every cached value was computed from a history of the size its key names.\<close>

definition cache_consistent :: "extractor \<Rightarrow> bool" where
  "cache_consistent self \<longleftrightarrow>
     (\<forall>k v. fmlookup (cache self) k = Some v \<longrightarrow>
        (\<exists>e h. k = cache_key e (length (rows h)) \<and> fresh_stats h = Inr v))"

text \<open>A number of hours as a \<^verbatim>\<open>Timedelta\<close>, to write timestamps with a time of day.\<close>

definition hours :: "int \<Rightarrow> int" where
  "hours n = n * 3600000000000"

text \<open>
  An extractor that has computed statistics for the entities \<^verbatim>\<open>A\<close>, \<^verbatim>\<open>A1\<close> and
  \<^verbatim>\<open>AB\<close>, and one that has computed them for \<^verbatim>\<open>ent_1\<close> and \<^verbatim>\<open>ent_2\<close>.
  Day 19723 is Monday 2024-01-01.
\<close>

definition extractor_A_A1_AB :: extractor where
  "extractor_A_A1_AB =
     snd (compute_entity_stats
       (snd (compute_entity_stats
         (snd (compute_entity_stats create_occurrence_extractor ''A''
                (DatetimeColumn [midnight 19723])))
         ''A1'' (DatetimeColumn [midnight 19723])))
       ''AB'' (DatetimeColumn [midnight 19723, midnight 19724]))"

definition extractor_ent_1_ent_2 :: extractor where
  "extractor_ent_1_ent_2 =
     snd (compute_entity_stats
       (snd (compute_entity_stats create_occurrence_extractor ''ent_1''
              (DatetimeColumn [midnight 19723])))
       ''ent_2'' (DatetimeColumn [midnight 19723]))"


section \<open>Properties\<close>

subsection \<open>Calendar arithmetic\<close>

lemma ns_per_day_pos: "0 < ns_per_day"
  by (simp add: ns_per_day_def)

lemma weekday_lt_7: "weekday t < 7"
  by (simp add: weekday_def nat_less_iff)

lemma div_add_days: "(t + k * ns_per_day) div ns_per_day = t div ns_per_day + k"
  using ns_per_day_pos by simp

lemma weekday_day_of: "weekday t = weekday (midnight (day_of t))"
  using ns_per_day_pos by (simp add: weekday_def midnight_def day_of_def)

lemma day_of_add_days: "day_of (t + k * ns_per_day) = day_of t + k"
  by (simp add: day_of_def div_add_days)

lemma length_filter_upt_Suc:
  "length (filter P [0..<Suc m]) = (if P 0 then 1 else 0) + length (filter (\<lambda>k. P (Suc k)) [0..<m])"
proof -
  have "[0..<Suc m] = 0 # map Suc [0..<m]"
    by (simp add: upt_conv_Cons map_Suc_upt del: upt_Suc)
  then show ?thesis
    by (simp add: filter_map comp_def del: upt_Suc)
qed

text \<open>The loop visits \<open>current\<close>, \<open>current\<close> plus one day, and so on while it is not after the end.\<close>

lemma count_weekdays_loop_eq:
  "count_weekdays_loop current end_date wd count =
     count + length (filter (\<lambda>k. weekday (current + int k * ns_per_day) = wd)
                       [0..<nat ((end_date - current) div ns_per_day + 1)])"
proof (induction current end_date wd count rule: count_weekdays_loop.induct)
  case (1 current end_date wd count)
  show ?case
  proof (cases "current \<le> end_date")
    case False
    then have "(end_date - current) div ns_per_day < 0"
      using ns_per_day_pos by (simp add: pos_imp_zdiv_neg_iff)
    then have "nat ((end_date - current) div ns_per_day + 1) = 0"
      by simp
    with False show ?thesis
      by (simp add: count_weekdays_loop.simps [of current])
  next
    case True
    define m where "m = nat ((end_date - current) div ns_per_day)"
    have nonneg: "0 \<le> (end_date - current) div ns_per_day"
      using True ns_per_day_pos by (simp add: pos_imp_zdiv_nonneg_iff)
    have "(end_date - (current + ns_per_day)) div ns_per_day
            = (end_date - current + (- 1) * ns_per_day) div ns_per_day"
      by (simp add: algebra_simps)
    also have "\<dots> = (end_date - current) div ns_per_day + (- 1)"
      by (rule div_add_days)
    finally have next_len: "nat ((end_date - (current + ns_per_day)) div ns_per_day + 1) = m"
      by (simp add: m_def)
    have this_len: "nat ((end_date - current) div ns_per_day + 1) = Suc m"
      using nonneg by (simp add: m_def nat_add_distrib)
    have shift: "\<And>k. current + ns_per_day + int k * ns_per_day = current + int (Suc k) * ns_per_day"
      by (simp add: algebra_simps)
    show ?thesis
      using "1.IH" [OF True] True
      by (subst count_weekdays_loop.simps)
         (simp add: next_len this_len length_filter_upt_Suc shift del: upt_Suc of_nat_Suc)
  qed
qed

lemma count_weekdays_in_range_enumeration:
  "count_weekdays_in_range start_date end_date wd =
     length (filter (\<lambda>k. weekday (start_date + int k * ns_per_day) = wd)
               [0..<nat ((end_date - start_date) div ns_per_day + 1)])"
  by (simp add: count_weekdays_in_range_def count_weekdays_loop_eq)

lemma upto_as_upt: "[i..j] = map (\<lambda>k. i + int k) [0..<nat (j - i + 1)]"
  by (rule nth_equalityI) simp_all

lemma days_between:
  assumes "time_of_day start_date \<le> time_of_day end_date"
  shows "(end_date - start_date) div ns_per_day = day_of end_date - day_of start_date"
proof -
  have s: "start_date = day_of start_date * ns_per_day + time_of_day start_date"
    by (simp add: day_of_def time_of_day_def)
  have e: "end_date = day_of end_date * ns_per_day + time_of_day end_date"
    by (simp add: day_of_def time_of_day_def)
  have "end_date - start_date =
          (time_of_day end_date - time_of_day start_date)
          + (day_of end_date - day_of start_date) * ns_per_day"
    by (subst e, subst s) (simp add: algebra_simps)
  moreover have "0 \<le> time_of_day end_date - time_of_day start_date"
    using assms by simp
  moreover have "time_of_day end_date - time_of_day start_date < ns_per_day"
  proof -
    have "time_of_day end_date < ns_per_day" "0 \<le> time_of_day start_date"
      using ns_per_day_pos by (simp_all add: time_of_day_def)
    then show ?thesis by linarith
  qed
  ultimately show ?thesis
    using ns_per_day_pos by (simp add: div_add_days)
qed

lemma count_weekdays_in_range_calendar:
  assumes "time_of_day start_date \<le> time_of_day end_date"
  shows "count_weekdays_in_range start_date end_date wd =
           calendar_dates_in_span start_date end_date wd"
proof -
  have "\<And>k. weekday (start_date + int k * ns_per_day)
              = weekday (midnight (day_of start_date + int k))"
    by (subst weekday_day_of) (simp add: day_of_add_days)
  then show ?thesis
    by (simp add: count_weekdays_in_range_enumeration calendar_dates_in_span_def
          days_between [OF assms] upto_as_upt [of "day_of start_date"] filter_map comp_def)
qed

subsection \<open>The weekday dictionary\<close>

lemma foldl_map_upd:
  "foldl (\<lambda>m k. m(k \<mapsto> f k)) m0 ks = (\<lambda>k. if k \<in> set ks then Some (f k) else m0 k)"
  by (induction ks arbitrary: m0) (auto simp: fun_eq_iff)

lemma compute_weekday_stats_nonempty:
  assumes "h \<noteq> []"
  shows "compute_weekday_stats h =
           (\<lambda>wd. if wd < 7 then Some (weekday_entry h (Min (set h)) (Max (set h)) wd) else None)"
proof -
  obtain x xs where h: "h = x # xs"
    using assms by (cases h) auto
  have "fold min xs x = Min (set h)" "fold max xs x = Max (set h)"
    unfolding h by (simp_all only: Min.set_eq_fold Max.set_eq_fold)
  then show ?thesis
    unfolding compute_weekday_stats_def h list.case Let_def
    by (simp add: foldl_map_upd fun_eq_iff h)
qed

subsection \<open>Cache keys\<close>

lemma decimal_digit_cases: "(d::nat) < 10 \<Longrightarrow> d \<in> {0, 1, 2, 3, 4, 5, 6, 7, 8, 9}"
  by auto

lemma digit_val_digit_char: "d < 10 \<Longrightarrow> digit_val (digit_char d) = d"
  using decimal_digit_cases [of d] by (auto simp: digit_val_def digit_char_def)

lemma digit_char_not_sep: "d < 10 \<Longrightarrow> digit_char d \<noteq> CHR ''_''"
  using decimal_digit_cases [of d] by (auto simp: digit_char_def)

lemma str_nat_small: "n < 10 \<Longrightarrow> str_nat n = [digit_char n]"
  by (simp add: str_nat.simps)

lemma nat_of_str_snoc: "nat_of_str (s @ [c]) = 10 * nat_of_str s + digit_val c"
  by (simp add: nat_of_str_def)

lemma nat_of_str_str_nat: "nat_of_str (str_nat n) = n"
proof (induction n rule: str_nat.induct)
  case (1 n)
  show ?case
  proof (cases "n < 10")
    case True
    then show ?thesis
      by (subst str_nat.simps) (simp add: nat_of_str_def digit_val_digit_char)
  next
    case False
    then show ?thesis
      using "1.IH"
      by (subst str_nat.simps) (simp add: nat_of_str_snoc digit_val_digit_char)
  qed
qed

lemma str_nat_inj: "str_nat n = str_nat m \<Longrightarrow> n = m"
  by (metis nat_of_str_str_nat)

lemma str_nat_no_sep: "CHR ''_'' \<notin> set (str_nat n)"
proof (induction n rule: str_nat.induct)
  case (1 n)
  show ?case
  proof (cases "n < 10")
    case True
    then show ?thesis
      using digit_char_not_sep [of n] by (subst str_nat.simps) auto
  next
    case False
    then show ?thesis
      using "1.IH" digit_char_not_sep [of "n mod 10"] by (subst str_nat.simps) auto
  qed
qed

lemma split_at_last_sep:
  assumes "a @ u # x = b @ u # y" "u \<notin> set x" "u \<notin> set y"
  shows "a = b \<and> x = y"
proof -
  have "rev x @ u # rev a = rev y @ u # rev b"
    using arg_cong [OF assms(1), of rev] by simp
  then have "takeWhile (\<lambda>c. c \<noteq> u) (rev x @ u # rev a) = takeWhile (\<lambda>c. c \<noteq> u) (rev y @ u # rev b)"
    by simp
  moreover have "takeWhile (\<lambda>c. c \<noteq> u) (rev x @ u # rev a) = rev x"
    using assms(2) by (subst takeWhile_append2) auto
  moreover have "takeWhile (\<lambda>c. c \<noteq> u) (rev y @ u # rev b) = rev y"
    using assms(3) by (subst takeWhile_append2) auto
  ultimately have "rev x = rev y"
    by simp
  then have "x = y" by simp
  with assms(1) show ?thesis by simp
qed

text \<open>The key determines the entity identifier and the size.\<close>

lemma cache_key_inj:
  "cache_key e n = cache_key e' n' \<Longrightarrow> e = e' \<and> n = n'"
  unfolding cache_key_def
  using split_at_last_sep [of e "CHR ''_''" "str_nat n" e' "str_nat n'"]
  by (auto simp: str_nat_no_sep dest: str_nat_inj)

subsection \<open>Evaluating on dates at midnight\<close>

lemma weekday_midnight: "weekday (midnight d) = nat ((d + 3) mod 7)"
  using ns_per_day_pos by (simp add: weekday_def midnight_def)

lemma day_of_midnight: "day_of (midnight d) = d"
  using ns_per_day_pos by (simp add: day_of_def midnight_def)

lemma time_of_day_midnight: "time_of_day (midnight d) = 0"
  by (simp add: time_of_day_def midnight_def)

lemma midnight_le_iff: "midnight a \<le> midnight b \<longleftrightarrow> a \<le> b"
  using ns_per_day_pos by (simp add: midnight_def)

lemma midnight_less_iff: "midnight a < midnight b \<longleftrightarrow> a < b"
  using ns_per_day_pos by (simp add: midnight_def)

lemma midnight_eq_iff: "midnight a = midnight b \<longleftrightarrow> a = b"
  using ns_per_day_pos by (simp add: midnight_def)

lemma count_weekdays_midnights:
  "count_weekdays_in_range (midnight a) (midnight b) wd =
     length (filter (\<lambda>d. nat ((d + 3) mod 7) = wd) [a..b])"
  by (simp add: count_weekdays_in_range_calendar time_of_day_midnight
        calendar_dates_in_span_def day_of_midnight weekday_midnight)

lemmas midnight_simps = weekday_midnight day_of_midnight time_of_day_midnight
  midnight_le_iff midnight_less_iff midnight_eq_iff count_weekdays_midnights

subsection \<open>Mean and deviation\<close>

lemma np_mean_ints: "np_mean (map real_of_int gaps) = mean_of gaps"
  by (simp add: np_mean_def mean_of_def)

lemma np_std_ints: "np_std (map real_of_int gaps) = population_std gaps"
  by (simp add: np_std_def population_std_def np_mean_def mean_of_def comp_def)

subsection \<open>The cache in reachable states\<close>

lemma rows_sort_values: "rows (sort_values h) = sort (rows h)"
  by (cases h) simp_all

lemma fresh_stats_object: "fresh_stats ObjectColumn = Inl AttributeError"
  by (simp add: fresh_stats_def span_days_def)

lemma fresh_stats_datetime:
  "\<exists>s. fresh_stats (DatetimeColumn ds) = Inr s"
  by (simp add: fresh_stats_def span_days_def Let_def split: list.splits)

lemma fresh_stats_fields:
  assumes "fresh_stats h = Inr s"
  shows "weekday_stats s = compute_weekday_stats (sort (rows h))"
    and "total_events s = length (rows h)"
  using assms
  by (auto simp: fresh_stats_def Let_def rows_sort_values split: sum.splits)

lemma fresh_stats_empty:
  "fresh_stats (DatetimeColumn []) =
     Inr \<lparr>weekday_stats = Map.empty, stddev_gap_between_events = 0,
          periodicity_score = 0, total_events = 0, history_span_days = None\<rparr>"
  by (simp add: fresh_stats_def compute_weekday_stats_def compute_gaps_between_events_def
        compute_periodicity_score_def span_days_def)

lemma compute_entity_stats_hit:
  "fmlookup (cache self) (cache_key e (length (rows h))) = Some v \<Longrightarrow>
     compute_entity_stats self e h = (Inr v, self\<lparr>debug_log := debug_log self @ [CacheHit e]\<rparr>)"
  by (simp add: compute_entity_stats_def Let_def)

lemma compute_entity_stats_miss:
  "fmlookup (cache self) (cache_key e (length (rows h))) = None \<Longrightarrow> fresh_stats h = Inr s \<Longrightarrow>
     compute_entity_stats self e h =
       (Inr s,
        self\<lparr>debug_log := debug_log self @ [ComputeStats e (length (rows h))],
              cache := fmupd (cache_key e (length (rows h))) s (cache self)\<rparr>)"
  by (simp add: compute_entity_stats_def Let_def)

lemma compute_entity_stats_raise:
  "fmlookup (cache self) (cache_key e (length (rows h))) = None \<Longrightarrow> fresh_stats h = Inl err \<Longrightarrow>
     compute_entity_stats self e h =
       (Inl err, self\<lparr>debug_log := debug_log self @ [ComputeStats e (length (rows h))]\<rparr>)"
  by (simp add: compute_entity_stats_def Let_def)


text \<open>A datetime-typed history never raises, in any state.\<close>

lemma compute_entity_stats_datetime:
  "\<exists>s. fst (compute_entity_stats self e (DatetimeColumn ds)) = Inr s"
proof (cases "fmlookup (cache self) (cache_key e (length (rows (DatetimeColumn ds))))")
  case (Some v)
  then show ?thesis
    by (simp add: compute_entity_stats_hit)
next
  case None
  obtain s where "fresh_stats (DatetimeColumn ds) = Inr s"
    using fresh_stats_datetime by blast
  with None show ?thesis
    by (simp add: compute_entity_stats_miss)
qed

lemma nonempty_is_datetime: "rows h \<noteq> [] \<Longrightarrow> \<exists>ds. h = DatetimeColumn ds"
  by (cases h) simp_all

lemma cache_consistent_compute:
  assumes "cache_consistent self"
  shows "cache_consistent (snd (compute_entity_stats self e h))"
proof (cases "fmlookup (cache self) (cache_key e (length (rows h)))")
  case (Some v)
  show ?thesis
    using assms unfolding compute_entity_stats_hit [OF Some] cache_consistent_def by simp
next
  case None
  show ?thesis
  proof (cases "fresh_stats h")
    case (Inl err)
    show ?thesis
      using assms unfolding compute_entity_stats_raise [OF None Inl] cache_consistent_def by simp
  next
    case (Inr s)
    show ?thesis
      unfolding compute_entity_stats_miss [OF None Inr] cache_consistent_def
    proof (intro allI impI)
      fix k v
      assume "fmlookup (cache (snd (Inr s,
                self\<lparr>debug_log := debug_log self @ [ComputeStats e (length (rows h))],
                      cache := fmupd (cache_key e (length (rows h))) s (cache self)\<rparr>))) k = Some v"
      then have look: "(if k = cache_key e (length (rows h)) then Some s
                        else fmlookup (cache self) k) = Some v"
        by (simp split: if_splits)
      show "\<exists>e h. k = cache_key e (length (rows h)) \<and> fresh_stats h = Inr v"
      proof (cases "k = cache_key e (length (rows h))")
        case True
        with look Inr show ?thesis by auto
      next
        case False
        with look assms show ?thesis by (simp add: cache_consistent_def)
      qed
    qed
  qed
qed

lemma cache_consistent_clear:
  assumes "cache_consistent self"
  shows "cache_consistent (clear_cache self x)"
  using assms
  by (auto simp: cache_consistent_def clear_cache_def split: option.splits if_splits)

lemma reachable_consistent: "reachable self \<Longrightarrow> cache_consistent self"
proof (induction rule: reachable.induct)
  case reachable_new
  show ?case by (simp add: cache_consistent_def create_occurrence_extractor_def)
next
  case (reachable_compute self entity_id h)
  then show ?case by (simp add: cache_consistent_compute)
next
  case (reachable_clear self entity_id)
  then show ?case by (simp add: cache_consistent_clear)
qed

text \<open>
  In a reachable state the statistics returned are those computed from a history of the
  same size.
\<close>

lemma compute_entity_stats_result:
  assumes "reachable self" and "fst (compute_entity_stats self e h) = Inr s"
  shows "\<exists>h'. length (rows h') = length (rows h) \<and> fresh_stats h' = Inr s"
proof (cases "fmlookup (cache self) (cache_key e (length (rows h)))")
  case None
  show ?thesis
  proof (cases "fresh_stats h")
    case (Inl err)
    with None assms(2) show ?thesis
      by (simp add: compute_entity_stats_raise)
  next
    case (Inr s')
    with None assms(2) show ?thesis
      by (auto simp: compute_entity_stats_miss)
  qed
next
  case (Some v)
  have "\<exists>e' h'. cache_key e (length (rows h)) = cache_key e' (length (rows h'))
                 \<and> fresh_stats h' = Inr v"
    using reachable_consistent [OF assms(1)] Some unfolding cache_consistent_def by blast
  then obtain e' h' where "cache_key e (length (rows h)) = cache_key e' (length (rows h'))"
      "fresh_stats h' = Inr v"
    by blast
  then have "length (rows h') = length (rows h)" "fresh_stats h' = Inr v"
    using cache_key_inj [of e "length (rows h)" e' "length (rows h')"] by auto
  with Some assms(2) show ?thesis
    by (auto simp: compute_entity_stats_hit)
qed

lemma sort_nonempty: "ds \<noteq> [] \<Longrightarrow> sort ds \<noteq> []"
  by (metis length_sort length_0_conv)

lemma fresh_weekday_stats:
  assumes "fresh_stats h = Inr s" and "rows h \<noteq> []"
  shows "weekday_stats s =
     (\<lambda>wd. if wd < 7
           then Some (weekday_entry (sort (rows h)) (Min (set (rows h))) (Max (set (rows h))) wd)
           else None)"
  using compute_weekday_stats_nonempty [OF sort_nonempty, OF assms(2)]
  by (simp add: fresh_stats_fields(1) [OF assms(1)] cong: if_cong)

lemma dom_fresh_weekday_stats:
  "fresh_stats h = Inr s \<Longrightarrow> rows h \<noteq> [] \<Longrightarrow> dom (weekday_stats s) = {0..<7}"
  by (auto simp: fresh_weekday_stats dom_def)

lemma fresh_extractor_stats:
  "fst (compute_entity_stats create_occurrence_extractor e h) = fresh_stats h"
  by (cases "fresh_stats h")
     (simp_all add: compute_entity_stats_raise compute_entity_stats_miss
        create_occurrence_extractor_def)

lemma extract_features_entry:
  assumes "fst (compute_entity_stats self entity_id h) = Inr stats"
    and "weekday_stats stats (weekday target_date) = Some info"
  shows "\<exists>feats. fst (extract_features get_week_of_month self entity_id target_date h) = Inr feats
           \<and> weekday_occurrence_count feats = occurrence_count info
           \<and> weekday_occurrence_rate feats = occurrence_rate info"
  using assms
  by (cases "compute_entity_stats self entity_id h") (simp add: extract_features_def Let_def)

lemma fresh_stats_entry:
  assumes "ds \<noteq> []" and "wd < 7"
  shows "\<exists>stats. fresh_stats (DatetimeColumn ds) = Inr stats
           \<and> weekday_stats stats wd = Some (weekday_entry (sort ds) (Min (set ds)) (Max (set ds)) wd)"
proof -
  obtain s where s: "fresh_stats (DatetimeColumn ds) = Inr s"
    using fresh_stats_datetime by blast
  show ?thesis
    using fresh_weekday_stats [OF s] assms by (simp add: s)
qed



section \<open>The claims\<close>

text \<open>
  C1. The claim: \<^verbatim>\<open>clear_cache("A")\<close> removes the entries of the entity \<^verbatim>\<open>A\<close> and
  leaves those of \<^verbatim>\<open>A1\<close> and \<^verbatim>\<open>AB\<close>. The source deletes every key that starts
  with the identifier. In an extractor that holds one entry for each of \<^verbatim>\<open>A\<close>,
  \<^verbatim>\<open>A1\<close> and \<^verbatim>\<open>AB\<close>, clearing \<^verbatim>\<open>A\<close> deletes all three: the entries of
  \<^verbatim>\<open>A1\<close> and \<^verbatim>\<open>AB\<close> are gone although their entity is not \<^verbatim>\<open>A\<close>.
\<close>

theorem clear_cache_removes_prefixed_entities:
  "fmdom (cache extractor_A_A1_AB) = {|''A_1'', ''A1_1'', ''AB_2''|}
   \<and> entity_of_key ''A1_1'' = ''A1'' \<and> entity_of_key ''AB_2'' = ''AB''
   \<and> fmlookup (cache (clear_cache extractor_A_A1_AB (Some ''A''))) ''A1_1'' = None
   \<and> fmlookup (cache (clear_cache extractor_A_A1_AB (Some ''A''))) ''AB_2'' = None
   \<and> fmdom (cache (clear_cache extractor_A_A1_AB (Some ''A''))) = {||}"
proof -
  obtain s1 where s1: "fresh_stats (DatetimeColumn [midnight 19723]) = Inr s1"
    using fresh_stats_datetime by blast
  obtain s2 where s2: "fresh_stats (DatetimeColumn [midnight 19723, midnight 19724]) = Inr s2"
    using fresh_stats_datetime by blast
  show ?thesis
    by (auto simp: extractor_A_A1_AB_def create_occurrence_extractor_def compute_entity_stats_def
        s1 s2 clear_cache_def cache_key_def str_nat_small digit_char_def entity_of_key_def Let_def)
qed

text \<open>
  C2. The claim: for every non-empty history and every weekday the count is at most the
  opportunities and the rate is their ratio. The source counts rows for the one and
  calendar days for the other. For a history of two records on the same Monday the
  Monday entry has count 2, opportunities 1 and rate 2.0, and
  \<^verbatim>\<open>should_predict_event\<close> returns that rate, 200 percent, as its confidence. The
  gaps of the same history ignore the second record of the day.
\<close>

theorem same_day_records_exceed_opportunities:
  "(\<exists>stats info.
      fst (compute_entity_stats create_occurrence_extractor ''A''
             (DatetimeColumn [midnight 19723, midnight 19723])) = Inr stats
      \<and> weekday_stats stats 0 = Some info
      \<and> occurrence_count info = 2 \<and> total_opportunities info = 1 \<and> occurrence_rate info = 2)
   \<and> fst (should_predict_event (\<lambda>t. 1) create_occurrence_extractor ''A'' (midnight 19730)
            (DatetimeColumn [midnight 19723, midnight 19723]) 2 (15 / 100))
       = Inr (True, 2, PredictionAuthorized 2 2)
   \<and> compute_gaps_between_events [midnight 19723, midnight 19723] = []"
proof -
  let ?h = "DatetimeColumn [midnight 19723, midnight 19723]"
  obtain stats where stats: "fresh_stats ?h = Inr stats"
    and entry: "weekday_stats stats 0 = Some (weekday_entry (sort [midnight 19723, midnight 19723])
         (Min (set [midnight 19723, midnight 19723])) (Max (set [midnight 19723, midnight 19723])) 0)"
    using fresh_stats_entry [of "[midnight 19723, midnight 19723]" 0] by auto
  have info: "weekday_stats stats 0 =
      Some \<lparr>occurrence_count = 2, occurrence_rate = 2, total_opportunities = 1\<rparr>"
    unfolding entry
    by (simp add: weekday_entry_def weekday_counts_def midnight_simps Let_def)
  have run: "compute_entity_stats create_occurrence_extractor ''A'' ?h =
      (Inr stats, create_occurrence_extractor
         \<lparr>debug_log := debug_log create_occurrence_extractor @ [ComputeStats ''A'' (length (rows ?h))],
          cache := fmupd (cache_key ''A'' (length (rows ?h))) stats (cache create_occurrence_extractor)\<rparr>)"
    by (rule compute_entity_stats_miss) (simp_all add: create_occurrence_extractor_def stats)
  have "compute_gaps_between_events [midnight 19723, midnight 19723] = []"
    by (simp add: compute_gaps_between_events_def td_days_def upt_conv_Cons)
  then show ?thesis
    by (simp add: run info should_predict_event_def extract_features_def weekday_midnight Let_def)
qed

text \<open>
  C3. The claim: the opportunities of a weekday are the calendar dates from min_date to
  max_date, both included, that fall on it. The loop steps by 24 hours from min_date and
  stops at the first instant after max_date. For the records Monday 23:00 and Tuesday
  01:00 it visits Monday 23:00 only: Tuesday has 0 opportunities and rate 0.0, although
  max_date is a Tuesday, the second record lies on it, and one calendar date of the span
  is a Tuesday.
\<close>

theorem late_start_misses_last_date:
  "(\<exists>stats info.
      fst (compute_entity_stats create_occurrence_extractor ''A''
             (DatetimeColumn [midnight 19723 + hours 23, midnight 19724 + hours 1])) = Inr stats
      \<and> weekday_stats stats 1 = Some info
      \<and> occurrence_count info = 1 \<and> total_opportunities info = 0 \<and> occurrence_rate info = 0)
   \<and> weekday (midnight 19724 + hours 1) = 1
   \<and> calendar_dates_in_span (midnight 19723 + hours 23) (midnight 19724 + hours 1) 1 = 1"
proof -
  let ?ds = "[midnight 19723 + hours 23, midnight 19724 + hours 1]"
  obtain stats where stats: "fresh_stats (DatetimeColumn ?ds) = Inr stats"
    and entry: "weekday_stats stats 1 = Some (weekday_entry (sort ?ds) (Min (set ?ds)) (Max (set ?ds)) 1)"
    using fresh_stats_entry [of ?ds 1] by auto
  have info: "weekday_stats stats 1 =
      Some \<lparr>occurrence_count = 1, occurrence_rate = 0, total_opportunities = 0\<rparr>"
    unfolding entry
    by (simp add: weekday_entry_def weekday_counts_def count_weekdays_in_range_enumeration
          weekday_def midnight_def hours_def ns_per_day_def Let_def)
  have "weekday (midnight 19724 + hours 1) = 1"
    by (simp add: weekday_def midnight_def hours_def ns_per_day_def)
  moreover have "calendar_dates_in_span (midnight 19723 + hours 23) (midnight 19724 + hours 1) 1 = 1"
    by (simp add: calendar_dates_in_span_def day_of_def weekday_def midnight_def hours_def
          ns_per_day_def)
  moreover have "\<exists>info. weekday_stats stats 1 = Some info
      \<and> occurrence_count info = 1 \<and> total_opportunities info = 0 \<and> occurrence_rate info = 0"
    unfolding info by simp
  ultimately show ?thesis
    by (simp add: fresh_extractor_stats stats)
qed

text \<open>
  C4. The periodicity score is 0.0 for fewer than 3 gaps; otherwise it is 0.0 when the
  mean of the gaps is 0 and 1 / (1 + cv) with cv = population standard deviation / mean
  when it is not. The gaps 7, 7, 7, 7 score 1.0 and the gaps 1, 2 score 0.0.
\<close>

theorem periodicity_score_formula:
  "compute_periodicity_score gaps =
     (if length gaps < 3 then 0
      else if mean_of gaps = 0 then 0
      else 1 / (1 + population_std gaps / mean_of gaps))
   \<and> compute_periodicity_score [7, 7, 7, 7] = 1
   \<and> compute_periodicity_score [1, 2] = 0"
proof -
  have "compute_periodicity_score gaps =
     (if length gaps < 3 then 0
      else if mean_of gaps = 0 then 0
      else 1 / (1 + population_std gaps / mean_of gaps))"
    by (simp add: compute_periodicity_score_def Let_def np_mean_ints np_std_ints)
  moreover have "compute_periodicity_score [7, 7, 7, 7] = 1"
    by (simp add: compute_periodicity_score_def Let_def np_mean_def np_std_def)
  moreover have "compute_periodicity_score [1, 2] = 0"
    by (simp add: compute_periodicity_score_def)
  ultimately show ?thesis by simp
qed

theorem periodicity_score_formula_witness:
  "compute_periodicity_score [3, 3, 3] = 1"
proof -
  have "mean_of [3, 3, 3] = 3" "population_std [3, 3, 3] = 0"
    by (simp_all add: mean_of_def population_std_def)
  then show ?thesis
    using periodicity_score_formula [of "[3, 3, 3]"] by simp
qed
text \<open>
  C5. The claim: a history of three events of which two share a date has exactly one
  gap. The source drops every difference of less than one whole day, also between
  records of different days. The sorted records Monday 00:00, Monday 12:00 and Tuesday
  06:00 lie on two dates, the first two on the same one; both differences are below 24
  hours and no gap is left.
\<close>

theorem three_records_two_dates_no_gap:
  "sorted [midnight 19723, midnight 19723 + hours 12, midnight 19724 + hours 6]
   \<and> day_of (midnight 19723) = day_of (midnight 19723 + hours 12)
   \<and> day_of (midnight 19723 + hours 12) \<noteq> day_of (midnight 19724 + hours 6)
   \<and> compute_gaps_between_events
        [midnight 19723, midnight 19723 + hours 12, midnight 19724 + hours 6] = []"
  by (simp add: compute_gaps_between_events_def td_days_def day_of_def midnight_def hours_def
        ns_per_day_def upt_conv_Cons Let_def)

text \<open>
  C6. \<^verbatim>\<open>should_predict_event\<close> reads the count and the rate of the target weekday
  from the statistics that \<^verbatim>\<open>compute_entity_stats\<close> returns (the default entry when
  the weekday is absent) and applies the rules in order: a count below the minimum
  gives (False, 0.0, insufficient sample) whatever the rate; otherwise a rate below the
  minimum gives (False, rate, rate too low); otherwise (True, rate, authorized). An
  exception of \<^verbatim>\<open>compute_entity_stats\<close> passes through; for a datetime-typed
  history there is none and a decision is returned, in every state.
\<close>

theorem should_predict_event_cascade:
  "should_predict_event get_week_of_month self entity_id target_date h
       min_occurrence_count min_occurrence_rate =
     (case compute_entity_stats self entity_id h of
        (Inl err, self') \<Rightarrow> (Inl err, self')
      | (Inr stats, self') \<Rightarrow>
          (let info = (case weekday_stats stats (weekday target_date) of
                         Some i \<Rightarrow> i | None \<Rightarrow> default_weekday_info);
               cnt = int (occurrence_count info);
               rate = occurrence_rate info
           in (Inr (if cnt < min_occurrence_count
                    then (False, 0, InsufficientSample cnt min_occurrence_count)
                    else if rate < min_occurrence_rate
                    then (False, rate, RateTooLow rate min_occurrence_rate)
                    else (True, rate, PredictionAuthorized rate cnt)), self')))
   \<and> (\<exists>decision. fst (should_predict_event get_week_of_month self entity_id target_date
                        (DatetimeColumn ds) min_occurrence_count min_occurrence_rate)
                  = Inr decision)"
proof -
  have eq: "should_predict_event get_week_of_month self entity_id target_date h
       min_occurrence_count min_occurrence_rate =
     (case compute_entity_stats self entity_id h of
        (Inl err, self') \<Rightarrow> (Inl err, self')
      | (Inr stats, self') \<Rightarrow>
          (let info = (case weekday_stats stats (weekday target_date) of
                         Some i \<Rightarrow> i | None \<Rightarrow> default_weekday_info);
               cnt = int (occurrence_count info);
               rate = occurrence_rate info
           in (Inr (if cnt < min_occurrence_count
                    then (False, 0, InsufficientSample cnt min_occurrence_count)
                    else if rate < min_occurrence_rate
                    then (False, rate, RateTooLow rate min_occurrence_rate)
                    else (True, rate, PredictionAuthorized rate cnt)), self')))" for h
    by (simp add: should_predict_event_def extract_features_def Let_def
          split: prod.splits sum.splits)
  obtain s where "fst (compute_entity_stats self entity_id (DatetimeColumn ds)) = Inr s"
    using compute_entity_stats_datetime by blast
  then have "\<exists>decision. fst (should_predict_event get_week_of_month self entity_id target_date
                        (DatetimeColumn ds) min_occurrence_count min_occurrence_rate)
                  = Inr decision"
    by (cases "compute_entity_stats self entity_id (DatetimeColumn ds)")
       (auto simp: eq Let_def)
  with eq show ?thesis by blast
qed

text \<open>
  One record on a Monday: the count 1 is below 2 and the decision is negative with
  confidence 0.0 although the rate is 1.0. Three records on the Mondays of a span with
  six Mondays: rate 0.5, accepted against a minimum of 0.15 and rejected against 0.9.
\<close>

theorem should_predict_event_cascade_witness:
  "fst (should_predict_event (\<lambda>t. 1) create_occurrence_extractor ''A'' (midnight 19765)
          (DatetimeColumn [midnight 19723]) 2 (15 / 100))
     = Inr (False, 0, InsufficientSample 1 2)
   \<and> fst (should_predict_event (\<lambda>t. 1) create_occurrence_extractor ''A'' (midnight 19765)
          (DatetimeColumn [midnight 19723, midnight 19730, midnight 19758]) 2 (15 / 100))
     = Inr (True, 1 / 2, PredictionAuthorized (1 / 2) 3)
   \<and> fst (should_predict_event (\<lambda>t. 1) create_occurrence_extractor ''A'' (midnight 19765)
          (DatetimeColumn [midnight 19723, midnight 19730, midnight 19758]) 2 (9 / 10))
     = Inr (False, 1 / 2, RateTooLow (1 / 2) (9 / 10))"
proof -
  let ?one = "[midnight 19723]" and ?three = "[midnight 19723, midnight 19730, midnight 19758]"
  obtain s1 where s1: "fresh_stats (DatetimeColumn ?one) = Inr s1"
    and e1: "weekday_stats s1 0 = Some (weekday_entry (sort ?one) (Min (set ?one)) (Max (set ?one)) 0)"
    using fresh_stats_entry [of ?one 0] by auto
  obtain s3 where s3: "fresh_stats (DatetimeColumn ?three) = Inr s3"
    and e3: "weekday_stats s3 0 = Some (weekday_entry (sort ?three) (Min (set ?three)) (Max (set ?three)) 0)"
    using fresh_stats_entry [of ?three 0] by auto
  have one: "weekday_stats s1 0
               = Some \<lparr>occurrence_count = 1, occurrence_rate = 1, total_opportunities = 1\<rparr>"
    unfolding e1
    by (simp add: weekday_entry_def weekday_counts_def midnight_simps Let_def)
  have three: "weekday_stats s3 0
               = Some \<lparr>occurrence_count = 3, occurrence_rate = 1 / 2, total_opportunities = 6\<rparr>"
    unfolding e3
    by (simp add: weekday_entry_def weekday_counts_def midnight_simps min_def max_def Let_def)
  have r1: "compute_entity_stats create_occurrence_extractor ''A'' (DatetimeColumn ?one)
     = (Inr s1, \<lparr>cache = fmupd (cache_key ''A'' 1) s1 fmempty, debug_log = [ComputeStats ''A'' 1]\<rparr>)"
    using compute_entity_stats_miss [of create_occurrence_extractor "''A''" "DatetimeColumn ?one" s1]
    by (simp add: create_occurrence_extractor_def s1)
  have r3: "compute_entity_stats create_occurrence_extractor ''A'' (DatetimeColumn ?three)
     = (Inr s3, \<lparr>cache = fmupd (cache_key ''A'' 3) s3 fmempty, debug_log = [ComputeStats ''A'' 3]\<rparr>)"
    using compute_entity_stats_miss [of create_occurrence_extractor "''A''" "DatetimeColumn ?three" s3]
    by (simp add: create_occurrence_extractor_def s3 numeral_3_eq_3)
  show ?thesis
    by (simp add: should_predict_event_cascade r1 r3 one three weekday_midnight Let_def)
qed

text \<open>
  C7. The claim: for an empty history \<^verbatim>\<open>compute_entity_stats\<close> does not raise and
  returns zero or empty defaults, the span included. The span is computed without the
  guard for the empty history that \<^verbatim>\<open>_compute_weekday_stats\<close> has. For an empty
  table whose date column is not datetime-typed the call raises
  \<^verbatim>\<open>AttributeError\<close> and caches nothing; for an empty datetime column it returns,
  with the span \<^verbatim>\<open>nan\<close> (\<open>None\<close> here), not 0.
\<close>

theorem empty_history_raises:
  "compute_entity_stats create_occurrence_extractor ''A'' ObjectColumn
     = (Inl AttributeError, create_occurrence_extractor\<lparr>debug_log := [ComputeStats ''A'' 0]\<rparr>)
   \<and> fst (compute_entity_stats create_occurrence_extractor ''A'' (DatetimeColumn []))
     = Inr \<lparr>weekday_stats = Map.empty, stddev_gap_between_events = 0,
            periodicity_score = 0, total_events = 0, history_span_days = None\<rparr>"
proof -
  have "compute_entity_stats create_occurrence_extractor ''A'' ObjectColumn
     = (Inl AttributeError, create_occurrence_extractor\<lparr>debug_log := [ComputeStats ''A'' 0]\<rparr>)"
    by (simp add: compute_entity_stats_raise fresh_stats_object create_occurrence_extractor_def)
  then show ?thesis
    by (simp add: fresh_extractor_stats fresh_stats_empty)
qed



text \<open>
  C9. The claim: \<^verbatim>\<open>cached_entities\<close> is the number of distinct entity identifiers
  among the keys, also when an identifier contains the separator. The source counts the
  distinct texts before the first separator of each key. In an extractor that holds one
  entry for \<^verbatim>\<open>ent_1\<close> and one for \<^verbatim>\<open>ent_2\<close> both keys start with \<^verbatim>\<open>ent\<close>: it
  reports 1 entity for 2 entries of 2 entities.
\<close>

theorem cached_entities_cuts_identifiers:
  "fmdom (cache extractor_ent_1_ent_2) = {|''ent_1_1'', ''ent_2_1''|}
   \<and> entity_of_key |`| fmdom (cache extractor_ent_1_ent_2) = {|''ent_1'', ''ent_2''|}
   \<and> first_segment |`| fmdom (cache extractor_ent_1_ent_2) = {|''ent''|}
   \<and> get_cache_stats extractor_ent_1_ent_2 = \<lparr>cache_size = 2, cached_entities = 1\<rparr>"
proof -
  obtain s1 where s1: "fresh_stats (DatetimeColumn [midnight 19723]) = Inr s1"
    using fresh_stats_datetime by blast
  show ?thesis
    by (auto simp: extractor_ent_1_ent_2_def create_occurrence_extractor_def
        compute_entity_stats_def s1 get_cache_stats_def cache_key_def str_nat_small digit_char_def
        first_segment_def entity_of_key_def fcard_finsert_if Let_def)
qed

text \<open>
  C10. For every non-empty history, in every reachable state,
  \<^verbatim>\<open>compute_entity_stats\<close> returns statistics whose weekday dictionary has exactly
  the keys 0 to 6. So the lookup of the target weekday in \<^verbatim>\<open>extract_features\<close> can
  only miss, and the default only be taken, when the history is empty: for a non-empty
  history the count and the rate of the feature vector are those of the entry of the
  target weekday.
\<close>

theorem weekday_stats_all_seven:
  assumes "reachable self"
  shows "(rows h \<noteq> [] \<longrightarrow>
            (\<exists>stats. fst (compute_entity_stats self entity_id h) = Inr stats
               \<and> dom (weekday_stats stats) = {0..<7}))
       \<and> (fst (compute_entity_stats self entity_id h) = Inr stats
            \<and> weekday_stats stats (weekday target_date) = None \<longrightarrow> rows h = [])
       \<and> (rows h \<noteq> [] \<longrightarrow>
            (\<exists>stats info feats.
               fst (compute_entity_stats self entity_id h) = Inr stats
               \<and> weekday_stats stats (weekday target_date) = Some info
               \<and> fst (extract_features get_week_of_month self entity_id target_date h) = Inr feats
               \<and> weekday_occurrence_count feats = occurrence_count info
               \<and> weekday_occurrence_rate feats = occurrence_rate info))"
proof -
  have keys: "dom (weekday_stats s) = {0..<7}"
    if ne: "rows h \<noteq> []" and ret: "fst (compute_entity_stats self entity_id h) = Inr s" for s
  proof -
    obtain h' where h': "length (rows h') = length (rows h)" "fresh_stats h' = Inr s"
      using compute_entity_stats_result [OF assms ret] by blast
    have "rows h' \<noteq> []"
      using h'(1) ne by auto
    then show ?thesis
      using h'(2) by (rule dom_fresh_weekday_stats [rotated])
  qed
  have returns: "\<exists>s. fst (compute_entity_stats self entity_id h) = Inr s" if "rows h \<noteq> []"
    using nonempty_is_datetime [OF that] compute_entity_stats_datetime by blast
  have wd: "weekday target_date \<in> {0..<7}"
    using weekday_lt_7 by simp
  have first: "rows h \<noteq> [] \<longrightarrow>
            (\<exists>stats. fst (compute_entity_stats self entity_id h) = Inr stats
               \<and> dom (weekday_stats stats) = {0..<7})"
    using returns keys by blast
  have second: "fst (compute_entity_stats self entity_id h) = Inr stats
            \<and> weekday_stats stats (weekday target_date) = None \<longrightarrow> rows h = []"
  proof (intro impI, elim conjE, rule ccontr)
    assume ret: "fst (compute_entity_stats self entity_id h) = Inr stats"
      and none: "weekday_stats stats (weekday target_date) = None"
      and ne: "rows h \<noteq> []"
    have "weekday target_date \<in> dom (weekday_stats stats)"
      using keys [OF ne ret] wd by simp
    with none show False
      by auto
  qed
  have third: "\<exists>stats info feats.
               fst (compute_entity_stats self entity_id h) = Inr stats
               \<and> weekday_stats stats (weekday target_date) = Some info
               \<and> fst (extract_features get_week_of_month self entity_id target_date h) = Inr feats
               \<and> weekday_occurrence_count feats = occurrence_count info
               \<and> weekday_occurrence_rate feats = occurrence_rate info" if ne: "rows h \<noteq> []"
  proof -
    obtain s where s: "fst (compute_entity_stats self entity_id h) = Inr s"
      using returns [OF ne] by blast
    have "weekday target_date \<in> dom (weekday_stats s)"
      using keys [OF ne s] wd by simp
    then obtain info where info: "weekday_stats s (weekday target_date) = Some info"
      by auto
    show ?thesis
      using extract_features_entry [OF s info, of get_week_of_month] s info by blast
  qed
  show ?thesis
    using first second third by blast
qed

theorem weekday_stats_all_seven_witness:
  "reachable create_occurrence_extractor
   \<and> rows (DatetimeColumn [midnight 19723]) \<noteq> []
   \<and> (\<exists>stats. fst (compute_entity_stats create_occurrence_extractor ''A''
                      (DatetimeColumn [midnight 19723])) = Inr stats
         \<and> dom (weekday_stats stats) = {0..<7})
   \<and> (\<exists>stats. fst (compute_entity_stats create_occurrence_extractor ''A''
                      (DatetimeColumn [])) = Inr stats
         \<and> weekday_stats stats (weekday (midnight 19723)) = None)"
  using weekday_stats_all_seven
          [OF reachable_new, where h = "DatetimeColumn [midnight 19723]" and entity_id = "''A''"]
        reachable_new
  by (simp add: fresh_extractor_stats fresh_stats_empty)

end
